theory Spec2Isabelle
  imports Main
begin

section \<open>The intermediate representation\<close>

text \<open>
  The pass of \<^verbatim>\<open>AddAtomicMutex.cpp\<close> rewrites statements of the compiler's intermediate
  representation. The node kinds are the ones the pass inspects or builds (variables,
  lets, loads, stores, atomic regions, allocations, producer/consumer markers, blocks,
  calls, evaluation), with \<open>Add\<close>, \<open>Mul\<close> and \<open>For\<close> standing for the remaining kinds,
  which the visitors and mutators only walk through, children in order.
\<close>

datatype halide_type = Int_t nat | UInt_t nat | Float_t nat | Handle_t | Mutex_array_ptr_t

datatype call_type = Extern | PureExtern | Intrinsic | Halide_call

datatype memory_type = Auto_mem | Heap_mem | Stack_mem | Register_mem

datatype expr =
    IntImm halide_type int
  | UIntImm halide_type nat
  | Variable halide_type string
  | Add expr expr
  | Mul expr expr
  | Load string expr expr
  | Let_expr string expr expr
  | Call halide_type string "expr list" call_type

text \<open>
  \<open>Load name predicate index\<close>, \<open>Let_expr name value body\<close>,
  \<open>Call type name args call_type\<close>. For statements:
  \<open>LetStmt name value body\<close>, \<open>Store name predicate value index\<close>,
  \<open>Atomic producer_name mutex_name body\<close>,
  \<open>Allocate name type memory_type extents condition body new_expr free_function\<close>,
  \<open>ProducerConsumer name is_producer body\<close>, \<open>Block first rest\<close>,
  \<open>For name min extent body\<close>, \<open>Evaluate value\<close>.
  An expression never contains a statement.
\<close>

datatype stmt =
    LetStmt string expr stmt
  | Store string expr expr expr
  | Atomic string string stmt
  | Allocate string halide_type memory_type "expr list" expr stmt "expr option" string
  | ProducerConsumer string bool stmt
  | Block stmt stmt
  | For string expr expr stmt
  | Evaluate expr

subsection \<open>Node objects and shared nodes\<close>

text \<open>
  A statement of the compiler is a graph: one node object may be the child of several
  parents. It is modelled by the term it unfolds to, together with a labelling that names
  the node object at every position of the term. A position is the list of child numbers
  from the node up to the root, the root being \<open>[]\<close>; two positions with the same object
  are one shared node. The children are numbered as follows: \<open>LetStmt\<close> value 0, body 1;
  \<open>Store\<close> predicate 0, value 1, index 2; \<open>Atomic\<close> and \<open>ProducerConsumer\<close> body 0;
  \<open>Allocate\<close> condition 0, body 1, new_expr 2, the extents from 3 on; \<open>Block\<close> first 0,
  rest 1; \<open>For\<close> min 0, extent 1, body 2; \<open>Evaluate\<close> value 0; \<open>Add\<close> and \<open>Mul\<close>
  operands 0 and 1; \<open>Load\<close> predicate 0, index 1; \<open>Let_expr\<close> value 0, body 1; \<open>Call\<close>
  the arguments from 0 on.

  A node that is not shared is named by its position, \<open>At p\<close>; \<open>Shared n\<close> names a node
  by a number; \<open>Rebuilt p\<close> is the new object that a mutator makes at position \<open>p\<close>.
\<close>

type_synonym position = "nat list"

datatype node = At position | Shared nat | Rebuilt position

type_synonym labelling = "position \<Rightarrow> node"

subsection \<open>IRGraphVisitor\<close>

text \<open>
  Every visitor of the pass is a graph visitor: it keeps the set of the node objects it
  has been to, and \<open>include\<close> goes into a node only when its object is not in the set yet,
  which it then joins. A visitor begins at its root with \<open>accept\<close>, which does not
  consult the set. Where a visitor does not override the visit of an expression, the
  visit changes nothing but the set.
\<close>

record graph_visitor =
  visited :: "node set"

fun graph_expr :: "labelling \<Rightarrow> position \<Rightarrow> expr \<Rightarrow> node set \<Rightarrow> node set"
  and graph_expr_include :: "labelling \<Rightarrow> position \<Rightarrow> expr \<Rightarrow> node set \<Rightarrow> node set"
  and graph_exprs_include ::
    "labelling \<Rightarrow> position \<Rightarrow> nat \<Rightarrow> expr list \<Rightarrow> node set \<Rightarrow> node set" where
  "graph_expr lab p (IntImm t i) V = V"
| "graph_expr lab p (UIntImm t n) V = V"
| "graph_expr lab p (Variable t x) V = V"
| "graph_expr lab p (Add a b) V =
     graph_expr_include lab (1 # p) b (graph_expr_include lab (0 # p) a V)"
| "graph_expr lab p (Mul a b) V =
     graph_expr_include lab (1 # p) b (graph_expr_include lab (0 # p) a V)"
| "graph_expr lab p (Load x pr i) V =
     graph_expr_include lab (1 # p) i (graph_expr_include lab (0 # p) pr V)"
| "graph_expr lab p (Let_expr x v b) V =
     graph_expr_include lab (1 # p) b (graph_expr_include lab (0 # p) v V)"
| "graph_expr lab p (Call t f args c) V = graph_exprs_include lab p 0 args V"
| "graph_expr_include lab p e V =
     (if lab p \<in> V then V else graph_expr lab p e (insert (lab p) V))"
| "graph_exprs_include lab p k [] V = V"
| "graph_exprs_include lab p k (e # es) V =
     graph_exprs_include lab p (Suc k) es (graph_expr_include lab (k # p) e V)"

definition include_expr ::
  "labelling \<Rightarrow> position \<Rightarrow> expr \<Rightarrow> 'a graph_visitor_scheme \<Rightarrow> 'a graph_visitor_scheme" where
  "include_expr lab p e st = st\<lparr>visited := graph_expr_include lab p e (visited st)\<rparr>"

definition include_exprs ::
  "labelling \<Rightarrow> position \<Rightarrow> nat \<Rightarrow> expr list \<Rightarrow> 'a graph_visitor_scheme \<Rightarrow>
   'a graph_visitor_scheme" where
  "include_exprs lab p k es st = st\<lparr>visited := graph_exprs_include lab p k es (visited st)\<rparr>"


section \<open>The downgrade analyzer\<close>

subsection \<open>The variable-dependency test\<close>

text \<open>
  A scope of let-bindings is the stack of the bindings in effect, innermost first;
  looking a name up finds its innermost binding.
\<close>

type_synonym scope = "(string \<times> expr) list"

text \<open>
  Modelled from the spec: \<^verbatim>\<open>expr_uses_vars\<close> of \<^verbatim>\<open>ExprUsesVar.h\<close>, which is not among the
  sources. The spec describes it as the test that, given a variable reference and a scope
  of active let-bindings, determines whether that reference transitively depends on any
  name in a given set. The names an expression refers to are its variables and the
  buffers it loads from. \<open>name_uses_vars vars sc x\<close> holds when \<open>x\<close> is in \<open>vars\<close>, or
  when the innermost binding of \<open>x\<close> has a value that refers to a name which, in the
  bindings outside that one, depends on \<open>vars\<close>.
\<close>

fun mentioned_names :: "expr \<Rightarrow> string list"
  and mentioned_names_list :: "expr list \<Rightarrow> string list" where
  "mentioned_names (IntImm t i) = []"
| "mentioned_names (UIntImm t n) = []"
| "mentioned_names (Variable t x) = [x]"
| "mentioned_names (Add a b) = mentioned_names a @ mentioned_names b"
| "mentioned_names (Mul a b) = mentioned_names a @ mentioned_names b"
| "mentioned_names (Load x p i) = x # mentioned_names p @ mentioned_names i"
| "mentioned_names (Let_expr x v b) = mentioned_names v @ mentioned_names b"
| "mentioned_names (Call t f args c) = mentioned_names_list args"
| "mentioned_names_list [] = []"
| "mentioned_names_list (e # es) = mentioned_names e @ mentioned_names_list es"

fun name_uses_vars :: "string set \<Rightarrow> scope \<Rightarrow> string \<Rightarrow> bool" where
  "name_uses_vars vars [] x = (x \<in> vars)"
| "name_uses_vars vars ((y, v) # sc) x =
     (x \<in> vars \<or>
      (if x = y then list_ex (name_uses_vars vars sc) (mentioned_names v)
       else name_uses_vars vars sc x))"

definition expr_uses_vars :: "expr \<Rightarrow> string set \<Rightarrow> scope \<Rightarrow> bool" where
  "expr_uses_vars e vars sc = list_ex (name_uses_vars vars sc) (mentioned_names e)"

subsection \<open>CollectStoreNames\<close>

text \<open>
  The collector pushes the name of every store it visits, after the expressions of the
  store.
\<close>

record csn_state = graph_visitor +
  store_names :: "string list"

definition csn_init :: csn_state where
  "csn_init = \<lparr>visited = {}, store_names = []\<rparr>"

fun collect_store_names :: "labelling \<Rightarrow> position \<Rightarrow> stmt \<Rightarrow> csn_state \<Rightarrow> csn_state"
  and collect_store_names_include ::
    "labelling \<Rightarrow> position \<Rightarrow> stmt \<Rightarrow> csn_state \<Rightarrow> csn_state" where
  "collect_store_names lab p (Store x pr v i) st =
     (let st1 = include_expr lab (2 # p) i
                  (include_expr lab (1 # p) v (include_expr lab (0 # p) pr st))
      in st1\<lparr>store_names := x # store_names st1\<rparr>)"
| "collect_store_names lab p (LetStmt x v b) st =
     collect_store_names_include lab (1 # p) b (include_expr lab (0 # p) v st)"
| "collect_store_names lab p (Atomic pn mn b) st =
     collect_store_names_include lab (0 # p) b st"
| "collect_store_names lab p (Allocate x t m es c b ne ff) st =
     (let st1 = include_exprs lab p 3 es st;
          st2 = include_expr lab (0 # p) c st1;
          st3 = (case ne of None \<Rightarrow> st2 | Some e \<Rightarrow> include_expr lab (2 # p) e st2)
      in collect_store_names_include lab (1 # p) b st3)"
| "collect_store_names lab p (ProducerConsumer x ip b) st =
     collect_store_names_include lab (0 # p) b st"
| "collect_store_names lab p (Block a b) st =
     collect_store_names_include lab (1 # p) b
       (collect_store_names_include lab (0 # p) a st)"
| "collect_store_names lab p (For x mn ex b) st =
     collect_store_names_include lab (2 # p) b
       (include_expr lab (1 # p) ex (include_expr lab (0 # p) mn st))"
| "collect_store_names lab p (Evaluate e) st = include_expr lab (0 # p) e st"
| "collect_store_names_include lab p s st =
     (if lab p \<in> visited st then st
      else collect_store_names lab p s (st\<lparr>visited := insert (lab p) (visited st)\<rparr>))"

subsection \<open>FindAtomicLetBindings\<close>

record falb_state = graph_visitor +
  lb_found :: bool
  inside_store :: string
  let_bindings :: scope

definition falb_init :: falb_state where
  "falb_init = \<lparr>visited = {}, lb_found = False, inside_store = [], let_bindings = []\<rparr>"

text \<open>
  \<open>ns\<close> is the scope of store names the finder was made with. A scoped binding pushes on
  entry and pops on exit; a scoped value sets on entry and puts the old value back on
  exit.
\<close>

fun falb_expr :: "string list \<Rightarrow> labelling \<Rightarrow> position \<Rightarrow> expr \<Rightarrow> falb_state \<Rightarrow> falb_state"
  and falb_expr_include ::
    "string list \<Rightarrow> labelling \<Rightarrow> position \<Rightarrow> expr \<Rightarrow> falb_state \<Rightarrow> falb_state"
  and falb_exprs_include ::
    "string list \<Rightarrow> labelling \<Rightarrow> position \<Rightarrow> nat \<Rightarrow> expr list \<Rightarrow> falb_state \<Rightarrow> falb_state"
  where
  "falb_expr ns lab p (IntImm t i) st = st"
| "falb_expr ns lab p (UIntImm t n) st = st"
| "falb_expr ns lab p (Variable t x) st =
     (if inside_store st \<noteq> [] then
        (if expr_uses_vars (Variable t x) (set ns) (let_bindings st)
         then st\<lparr>lb_found := True\<rparr> else st)
      else st)"
| "falb_expr ns lab p (Add a b) st =
     falb_expr_include ns lab (1 # p) b (falb_expr_include ns lab (0 # p) a st)"
| "falb_expr ns lab p (Mul a b) st =
     falb_expr_include ns lab (1 # p) b (falb_expr_include ns lab (0 # p) a st)"
| "falb_expr ns lab p (Load x pr i) st =
     falb_expr_include ns lab (1 # p) i (falb_expr_include ns lab (0 # p) pr st)"
| "falb_expr ns lab p (Let_expr x v b) st =
     (let st1 = falb_expr_include ns lab (0 # p) v st;
          st2 = falb_expr_include ns lab (1 # p) b
                  (st1\<lparr>let_bindings := (x, v) # let_bindings st1\<rparr>)
      in st2\<lparr>let_bindings := tl (let_bindings st2)\<rparr>)"
| "falb_expr ns lab p (Call t f args c) st = falb_exprs_include ns lab p 0 args st"
| "falb_expr_include ns lab p e st =
     (if lab p \<in> visited st then st
      else falb_expr ns lab p e (st\<lparr>visited := insert (lab p) (visited st)\<rparr>))"
| "falb_exprs_include ns lab p k [] st = st"
| "falb_exprs_include ns lab p k (e # es) st =
     falb_exprs_include ns lab p (Suc k) es (falb_expr_include ns lab (k # p) e st)"

fun falb_stmt :: "string list \<Rightarrow> labelling \<Rightarrow> position \<Rightarrow> stmt \<Rightarrow> falb_state \<Rightarrow> falb_state"
  and falb_stmt_include ::
    "string list \<Rightarrow> labelling \<Rightarrow> position \<Rightarrow> stmt \<Rightarrow> falb_state \<Rightarrow> falb_state" where
  "falb_stmt ns lab p (LetStmt x v b) st =
     (let st1 = falb_expr_include ns lab (0 # p) v st;
          st2 = falb_stmt_include ns lab (1 # p) b
                  (st1\<lparr>let_bindings := (x, v) # let_bindings st1\<rparr>)
      in st2\<lparr>let_bindings := tl (let_bindings st2)\<rparr>)"
| "falb_stmt ns lab p (Store x pr v i) st =
     (let st1 = falb_expr_include ns lab (0 # p) pr st;
          st2 = (if x \<in> set ns then
                   (let old_inside_store = inside_store st1;
                        st' = falb_expr_include ns lab (1 # p) v (st1\<lparr>inside_store := x\<rparr>)
                    in st'\<lparr>inside_store := old_inside_store\<rparr>)
                 else falb_expr_include ns lab (1 # p) v st1)
      in falb_expr_include ns lab (2 # p) i st2)"
| "falb_stmt ns lab p (Atomic pn mn b) st = falb_stmt_include ns lab (0 # p) b st"
| "falb_stmt ns lab p (Allocate x t m es c b ne ff) st =
     (let st1 = falb_exprs_include ns lab p 3 es st;
          st2 = falb_expr_include ns lab (0 # p) c st1;
          st3 = (case ne of None \<Rightarrow> st2 | Some e \<Rightarrow> falb_expr_include ns lab (2 # p) e st2)
      in falb_stmt_include ns lab (1 # p) b st3)"
| "falb_stmt ns lab p (ProducerConsumer x ip b) st = falb_stmt_include ns lab (0 # p) b st"
| "falb_stmt ns lab p (Block a b) st =
     falb_stmt_include ns lab (1 # p) b (falb_stmt_include ns lab (0 # p) a st)"
| "falb_stmt ns lab p (For x mn ex b) st =
     falb_stmt_include ns lab (2 # p) b
       (falb_expr_include ns lab (1 # p) ex (falb_expr_include ns lab (0 # p) mn st))"
| "falb_stmt ns lab p (Evaluate e) st = falb_expr_include ns lab (0 # p) e st"
| "falb_stmt_include ns lab p s st =
     (if lab p \<in> visited st then st
      else falb_stmt ns lab p s (st\<lparr>visited := insert (lab p) (visited st)\<rparr>))"

subsection \<open>RemoveUnnecessaryMutexUse\<close>

text \<open>
  For the body at position \<open>p\<close> of an atomic region, the collector and then the finder
  are run on it, each a new visitor.
\<close>

definition atomic_finder_found :: "labelling \<Rightarrow> position \<Rightarrow> stmt \<Rightarrow> bool" where
  "atomic_finder_found lab p body =
     lb_found (falb_stmt (store_names (collect_store_names lab p body csn_init))
                 lab p body falb_init)"

text \<open>
  Modelled from the spec: the default visit of \<^verbatim>\<open>IRMutator\<close>, which is not among the
  sources. The spec has it rebuild a node from its mutated children. A mutator is not a
  graph visitor: it goes into a shared node once for every parent. Here a statement whose
  children come back as the same objects is returned as the object it is, and a rebuilt
  statement is a new object; the expressions of a statement hold no statement and come
  back as they are.

  The mutator carries the set \<open>remove_mutex_lock_names\<close>. It returns the statement,
  whether that is the object it was given, the positions at which it has made a new
  object, and the set. \<open>lab\<close> is the labelling of the statement the mutator is run on.
\<close>

fun remove_unnecessary_mutex_use ::
  "labelling \<Rightarrow> position \<Rightarrow> stmt \<Rightarrow> string set \<Rightarrow>
   stmt \<times> bool \<times> position set \<times> string set" where
  "remove_unnecessary_mutex_use lab p (Atomic pn mn b) names =
     (if atomic_finder_found lab (0 # p) b then
        (let (b', same, made, names') = remove_unnecessary_mutex_use lab (0 # p) b names
         in if same then (Atomic pn mn b, True, made, names')
            else (Atomic pn mn b', False, insert p made, names'))
      else
        (let (b', same, made, names') =
               remove_unnecessary_mutex_use lab (0 # p) b (insert mn names)
         in (Atomic pn [] b', False, insert p made, names')))"
| "remove_unnecessary_mutex_use lab p (LetStmt x v b) names =
     (let (b', same, made, names') = remove_unnecessary_mutex_use lab (1 # p) b names
      in if same then (LetStmt x v b, True, made, names')
         else (LetStmt x v b', False, insert p made, names'))"
| "remove_unnecessary_mutex_use lab p (Store x pr v i) names =
     (Store x pr v i, True, {}, names)"
| "remove_unnecessary_mutex_use lab p (Allocate x t m es c b ne ff) names =
     (let (b', same, made, names') = remove_unnecessary_mutex_use lab (1 # p) b names
      in if same then (Allocate x t m es c b ne ff, True, made, names')
         else (Allocate x t m es c b' ne ff, False, insert p made, names'))"
| "remove_unnecessary_mutex_use lab p (ProducerConsumer x ip b) names =
     (let (b', same, made, names') = remove_unnecessary_mutex_use lab (0 # p) b names
      in if same then (ProducerConsumer x ip b, True, made, names')
         else (ProducerConsumer x ip b', False, insert p made, names'))"
| "remove_unnecessary_mutex_use lab p (Block a b) names =
     (let (a', same_a, made_a, names1) = remove_unnecessary_mutex_use lab (0 # p) a names;
          (b', same_b, made_b, names2) = remove_unnecessary_mutex_use lab (1 # p) b names1
      in if same_a \<and> same_b then (Block a b, True, made_a \<union> made_b, names2)
         else (Block a' b', False, insert p (made_a \<union> made_b), names2))"
| "remove_unnecessary_mutex_use lab p (For x mn ex b) names =
     (let (b', same, made, names') = remove_unnecessary_mutex_use lab (2 # p) b names
      in if same then (For x mn ex b, True, made, names')
         else (For x mn ex b', False, insert p made, names'))"
| "remove_unnecessary_mutex_use lab p (Evaluate e) names = (Evaluate e, True, {}, names)"

text \<open>The labelling of what the mutator returns.\<close>

definition relabel :: "labelling \<Rightarrow> position set \<Rightarrow> labelling" where
  "relabel lab made = (\<lambda>p. if p \<in> made then Rebuilt p else lab p)"

subsection \<open>What the analyzer is specified to do\<close>

text \<open>
  The atomic regions of a statement, outer before inner and in program order, each with
  its producer name, its mutex name and its body.
\<close>

fun atomic_regions :: "stmt \<Rightarrow> (string \<times> string \<times> stmt) list" where
  "atomic_regions (LetStmt x v b) = atomic_regions b"
| "atomic_regions (Store x p v i) = []"
| "atomic_regions (Atomic pn mn b) = (pn, mn, b) # atomic_regions b"
| "atomic_regions (Allocate x t m es c b ne ff) = atomic_regions b"
| "atomic_regions (ProducerConsumer x ip b) = atomic_regions b"
| "atomic_regions (Block a b) = atomic_regions a @ atomic_regions b"
| "atomic_regions (For x mn ex b) = atomic_regions b"
| "atomic_regions (Evaluate e) = []"

text \<open>The statement with the mutex name of every atomic region cleared.\<close>

fun clear_mutex_names :: "stmt \<Rightarrow> stmt" where
  "clear_mutex_names (LetStmt x v b) = LetStmt x v (clear_mutex_names b)"
| "clear_mutex_names (Store x p v i) = Store x p v i"
| "clear_mutex_names (Atomic pn mn b) = Atomic pn [] (clear_mutex_names b)"
| "clear_mutex_names (Allocate x t m es c b ne ff) =
     Allocate x t m es c (clear_mutex_names b) ne ff"
| "clear_mutex_names (ProducerConsumer x ip b) = ProducerConsumer x ip (clear_mutex_names b)"
| "clear_mutex_names (Block a b) = Block (clear_mutex_names a) (clear_mutex_names b)"
| "clear_mutex_names (For x mn ex b) = For x mn ex (clear_mutex_names b)"
| "clear_mutex_names (Evaluate e) = Evaluate e"

text \<open>
  The variable references of an expression, each with the let-bindings in effect where it
  stands: those given, and inside them the lets of the expression around the reference.
\<close>

fun var_refs :: "scope \<Rightarrow> expr \<Rightarrow> (string \<times> scope) list"
  and var_refs_list :: "scope \<Rightarrow> expr list \<Rightarrow> (string \<times> scope) list" where
  "var_refs sc (IntImm t i) = []"
| "var_refs sc (UIntImm t n) = []"
| "var_refs sc (Variable t x) = [(x, sc)]"
| "var_refs sc (Add a b) = var_refs sc a @ var_refs sc b"
| "var_refs sc (Mul a b) = var_refs sc a @ var_refs sc b"
| "var_refs sc (Load x p i) = var_refs sc p @ var_refs sc i"
| "var_refs sc (Let_expr x v b) = var_refs sc v @ var_refs ((x, v) # sc) b"
| "var_refs sc (Call t f args c) = var_refs_list sc args"
| "var_refs_list sc [] = []"
| "var_refs_list sc (e # es) = var_refs sc e @ var_refs_list sc es"

text \<open>
  The variable references inside the stored values of the stores of a statement, with the
  bindings in effect at each; \<open>sc\<close> holds the bindings in effect around the statement.
\<close>

fun store_value_refs :: "scope \<Rightarrow> stmt \<Rightarrow> (string \<times> scope) list" where
  "store_value_refs sc (LetStmt x v b) = store_value_refs ((x, v) # sc) b"
| "store_value_refs sc (Store x p v i) = var_refs sc v"
| "store_value_refs sc (Atomic pn mn b) = store_value_refs sc b"
| "store_value_refs sc (Allocate x t m es c b ne ff) = store_value_refs sc b"
| "store_value_refs sc (ProducerConsumer x ip b) = store_value_refs sc b"
| "store_value_refs sc (Block a b) = store_value_refs sc a @ store_value_refs sc b"
| "store_value_refs sc (For x mn ex b) = store_value_refs sc b"
| "store_value_refs sc (Evaluate e) = []"

text \<open>The buffer names written by the stores of a statement.\<close>

fun written_buffers :: "stmt \<Rightarrow> string set" where
  "written_buffers (LetStmt x v b) = written_buffers b"
| "written_buffers (Store x p v i) = {x}"
| "written_buffers (Atomic pn mn b) = written_buffers b"
| "written_buffers (Allocate x t m es c b ne ff) = written_buffers b"
| "written_buffers (ProducerConsumer x ip b) = written_buffers b"
| "written_buffers (Block a b) = written_buffers a \<union> written_buffers b"
| "written_buffers (For x mn ex b) = written_buffers b"
| "written_buffers (Evaluate e) = {}"

text \<open>
  The dependency of the specification, for the body of a region that stands inside the
  let-bindings \<open>sc\<close>: some store of the body stores a value containing a variable
  reference that depends, through the let-bindings in effect at it, on a buffer written
  by a store of the body.
\<close>

definition store_value_depends :: "scope \<Rightarrow> stmt \<Rightarrow> bool" where
  "store_value_depends sc body =
     list_ex (\<lambda>(x, sc'). name_uses_vars (written_buffers body) sc' x)
       (store_value_refs sc body)"

section \<open>The mutex synthesizer\<close>

subsection \<open>FindStoreInAtomicMutex\<close>

record fsam_state = graph_visitor +
  found :: bool
  producer_name :: string
  mutex_name :: string
  in_atomic_mutex :: bool
  read_destroyed :: bool

definition fsam_init :: fsam_state where
  "fsam_init = \<lparr>visited = {}, found = False, producer_name = [], mutex_name = [],
     in_atomic_mutex = False, read_destroyed = False\<rparr>"

text \<open>
  The finder looks for a store to one of its \<open>store_names\<close> inside an atomic region with
  a mutex name. It holds the set by reference, and does not keep it alive: \<open>Some ns\<close> is
  a reference to a set that is still there, \<open>None\<close> a reference to a set that has been
  destroyed. Reading the set through the latter has no defined behaviour; the finder
  notes it in \<open>read_destroyed\<close>, which the code has no counterpart of.
\<close>

fun find_store_in_atomic_mutex ::
  "string set option \<Rightarrow> labelling \<Rightarrow> position \<Rightarrow> stmt \<Rightarrow> fsam_state \<Rightarrow> fsam_state"
  and find_store_in_atomic_mutex_include ::
  "string set option \<Rightarrow> labelling \<Rightarrow> position \<Rightarrow> stmt \<Rightarrow> fsam_state \<Rightarrow> fsam_state" where
  "find_store_in_atomic_mutex sn lab p (Atomic pn mn b) st =
     (if \<not> found st \<and> mn \<noteq> [] then
        (let old_in_atomic_mutex = in_atomic_mutex st;
             st1 = find_store_in_atomic_mutex_include sn lab (0 # p) b
                     (st\<lparr>in_atomic_mutex := True\<rparr>);
             st2 = (if found st1 then st1\<lparr>producer_name := pn, mutex_name := mn\<rparr> else st1)
         in st2\<lparr>in_atomic_mutex := old_in_atomic_mutex\<rparr>)
      else find_store_in_atomic_mutex_include sn lab (0 # p) b st)"
| "find_store_in_atomic_mutex sn lab p (Store x pr v i) st =
     (let st1 = (if in_atomic_mutex st then
                   (case sn of
                      None \<Rightarrow> st\<lparr>read_destroyed := True\<rparr>
                    | Some ns \<Rightarrow> if x \<in> ns then st\<lparr>found := True\<rparr> else st)
                 else st)
      in include_expr lab (2 # p) i
           (include_expr lab (1 # p) v (include_expr lab (0 # p) pr st1)))"
| "find_store_in_atomic_mutex sn lab p (LetStmt x v b) st =
     find_store_in_atomic_mutex_include sn lab (1 # p) b (include_expr lab (0 # p) v st)"
| "find_store_in_atomic_mutex sn lab p (Allocate x t m es c b ne ff) st =
     (let st1 = include_exprs lab p 3 es st;
          st2 = include_expr lab (0 # p) c st1;
          st3 = (case ne of None \<Rightarrow> st2 | Some e \<Rightarrow> include_expr lab (2 # p) e st2)
      in find_store_in_atomic_mutex_include sn lab (1 # p) b st3)"
| "find_store_in_atomic_mutex sn lab p (ProducerConsumer x ip b) st =
     find_store_in_atomic_mutex_include sn lab (0 # p) b st"
| "find_store_in_atomic_mutex sn lab p (Block a b) st =
     find_store_in_atomic_mutex_include sn lab (1 # p) b
       (find_store_in_atomic_mutex_include sn lab (0 # p) a st)"
| "find_store_in_atomic_mutex sn lab p (For x mn ex b) st =
     find_store_in_atomic_mutex_include sn lab (2 # p) b
       (include_expr lab (1 # p) ex (include_expr lab (0 # p) mn st))"
| "find_store_in_atomic_mutex sn lab p (Evaluate e) st = include_expr lab (0 # p) e st"
| "find_store_in_atomic_mutex_include sn lab p s st =
     (if lab p \<in> visited st then st
      else find_store_in_atomic_mutex sn lab p s (st\<lparr>visited := insert (lab p) (visited st)\<rparr>))"

subsection \<open>FindStoreIndex\<close>

text \<open>
  The index of the first store the visitor comes to; an undefined index is \<open>None\<close>. The
  visit of a store does not go into its expressions.
\<close>

record fsi_state = graph_visitor +
  index :: "expr option"

definition fsi_init :: fsi_state where
  "fsi_init = \<lparr>visited = {}, index = None\<rparr>"

fun find_store_index :: "labelling \<Rightarrow> position \<Rightarrow> stmt \<Rightarrow> fsi_state \<Rightarrow> fsi_state"
  and find_store_index_include ::
    "labelling \<Rightarrow> position \<Rightarrow> stmt \<Rightarrow> fsi_state \<Rightarrow> fsi_state" where
  "find_store_index lab p (Store x pr v i) st =
     (if index st \<noteq> None then st else st\<lparr>index := Some i\<rparr>)"
| "find_store_index lab p (LetStmt x v b) st =
     find_store_index_include lab (1 # p) b (include_expr lab (0 # p) v st)"
| "find_store_index lab p (Atomic pn mn b) st = find_store_index_include lab (0 # p) b st"
| "find_store_index lab p (Allocate x t m es c b ne ff) st =
     (let st1 = include_exprs lab p 3 es st;
          st2 = include_expr lab (0 # p) c st1;
          st3 = (case ne of None \<Rightarrow> st2 | Some e \<Rightarrow> include_expr lab (2 # p) e st2)
      in find_store_index_include lab (1 # p) b st3)"
| "find_store_index lab p (ProducerConsumer x ip b) st =
     find_store_index_include lab (0 # p) b st"
| "find_store_index lab p (Block a b) st =
     find_store_index_include lab (1 # p) b (find_store_index_include lab (0 # p) a st)"
| "find_store_index lab p (For x mn ex b) st =
     find_store_index_include lab (2 # p) b
       (include_expr lab (1 # p) ex (include_expr lab (0 # p) mn st))"
| "find_store_index lab p (Evaluate e) st = include_expr lab (0 # p) e st"
| "find_store_index_include lab p s st =
     (if lab p \<in> visited st then st
      else find_store_index lab p s (st\<lparr>visited := insert (lab p) (visited st)\<rparr>))"

subsection \<open>The function environment\<close>

text \<open>
  Modelled from the spec: the function definitions of the environment, whose classes
  (\<^verbatim>\<open>Function\<close>, \<^verbatim>\<open>Func\<close>, \<^verbatim>\<open>OutputImageParam\<close>) are not among the sources. The spec
  gives each function zero or more declared output buffers, each with a name, a
  dimensionality and an extent expression per dimension.
\<close>

record output_image_param =
  buffer_name :: string
  dim_extents :: "expr list"

record func =
  output_buffers :: "output_image_param list"

type_synonym env = "string \<rightharpoonup> func"

subsection \<open>AddAtomicMutex\<close>

text \<open>
  The mutator fails in three ways: an internal assertion that does not hold; the use of
  the iterator that \<^verbatim>\<open>env.find\<close> returns for a name the environment does not have, which
  the code does not guard against; and the reading of a set of store names that has been
  destroyed.
\<close>

datatype error = Internal_assert string | Invalid_iterator | Destroyed_store_names

definition const_true :: expr where
  "const_true = UIntImm (UInt_t 1) 1"

definition allocate_mutex :: "string \<Rightarrow> expr \<Rightarrow> stmt \<Rightarrow> stmt" where
  "allocate_mutex mutex extent body =
     (let mutex_array = Call Mutex_array_ptr_t ''halide_mutex_array_create'' [extent] Extern
      in Allocate mutex Handle_t Stack_mem [] const_true body (Some mutex_array)
           ''halide_mutex_array_destroy'')"

text \<open>
  \<open>allocated_mutexes\<close> is threaded through the mutator; \<open>lab\<close> is the labelling of the
  statement the mutator is run on, and the visitors are run on the bodies of that
  statement. What the mutator returns is not visited again, so the objects of the
  statements it makes are not kept. The extent of a mutex array is built by multiplying
  the extents onto the constant one, from the left; the product of two expressions of
  one type is the \<open>Mul\<close> node of the two.

  At an allocation the finder is made with a set \<open>{op->name}\<close> that lives only while
  the finder is being made: its reference is to a destroyed set when the body is
  visited. At a producer the set is a local variable that outlives the finder.
\<close>

fun mutate ::
  "env \<Rightarrow> labelling \<Rightarrow> position \<Rightarrow> stmt \<Rightarrow> string set \<Rightarrow> error + stmt \<times> string set" where
  "mutate env lab p (Allocate x t m es c b ne ff) allocated_mutexes =
     (let finder = find_store_in_atomic_mutex None lab (1 # p) b fsam_init in
      if read_destroyed finder then Inl Destroyed_store_names
      else if \<not> found finder then
        (case mutate env lab (1 # p) b allocated_mutexes of
           Inl e \<Rightarrow> Inl e
         | Inr (b', al) \<Rightarrow> Inr (Allocate x t m es c b' ne ff, al))
      else if mutex_name finder \<in> allocated_mutexes then
        (case mutate env lab (1 # p) b allocated_mutexes of
           Inl e \<Rightarrow> Inl e
         | Inr (b', al) \<Rightarrow> Inr (Allocate x t m es c b' ne ff, al))
      else
        (case mutate env lab (1 # p) b (insert (mutex_name finder) allocated_mutexes) of
           Inl e \<Rightarrow> Inl e
         | Inr (b', al) \<Rightarrow>
             (let extent = foldl Mul (IntImm (Int_t 32) 1) es;
                  body = allocate_mutex (mutex_name finder) extent b'
              in Inr (Allocate x t m es c body ne ff, al))))"
| "mutate env lab p (ProducerConsumer x is_producer b) allocated_mutexes =
     (if \<not> is_producer then
        (case mutate env lab (0 # p) b allocated_mutexes of
           Inl e \<Rightarrow> Inl e
         | Inr (b', al) \<Rightarrow> Inr (ProducerConsumer x is_producer b', al))
      else
        (case env x of
           None \<Rightarrow> Inl Invalid_iterator
         | Some f \<Rightarrow>
             (case output_buffers f of
                [] \<Rightarrow> Inl (Internal_assert
                  (''Found a producer node that contains an atomic node that requires mutex lock, '' @
                   ''but does not have an Allocate node and is not an output function. '' @
                   ''This is not supported.''))
              | output_buffer # _ \<Rightarrow>
                  (let store_names = set (map buffer_name (output_buffers f));
                       finder = find_store_in_atomic_mutex (Some store_names) lab (0 # p) b
                                  fsam_init in
                   if \<not> found finder then
                     (case mutate env lab (0 # p) b allocated_mutexes of
                        Inl e \<Rightarrow> Inl e
                      | Inr (b', al) \<Rightarrow> Inr (ProducerConsumer x is_producer b', al))
                   else if mutex_name finder \<in> allocated_mutexes then
                     (case mutate env lab (0 # p) b allocated_mutexes of
                        Inl e \<Rightarrow> Inl e
                      | Inr (b', al) \<Rightarrow> Inr (ProducerConsumer x is_producer b', al))
                   else
                     (let extent = foldl Mul (IntImm (Int_t 32) 1) (dim_extents output_buffer) in
                      case mutate env lab (0 # p) b (insert (mutex_name finder) allocated_mutexes) of
                        Inl e \<Rightarrow> Inl e
                      | Inr (b', al) \<Rightarrow>
                          Inr (ProducerConsumer x is_producer
                                 (allocate_mutex (mutex_name finder) extent b'), al))))))"
| "mutate env lab p (Atomic pn mn b) allocated_mutexes =
     (if mn = [] then
        (case mutate env lab (0 # p) b allocated_mutexes of
           Inl e \<Rightarrow> Inl e
         | Inr (b', al) \<Rightarrow> Inr (Atomic pn mn b', al))
      else
        (let find = find_store_index lab (0 # p) b fsi_init;
             index = (case index find of
                        None \<Rightarrow> IntImm (Int_t 32) 0
                      | Some i \<Rightarrow> i);
             mutex_array = Variable Mutex_array_ptr_t mn;
             body = Block
               (Evaluate (Call (Int_t 32) ''halide_mutex_array_lock'' [mutex_array, index] Extern))
               (Block b
                 (Evaluate (Call (Int_t 32) ''halide_mutex_array_unlock'' [mutex_array, index]
                    Extern)))
         in Inr (Atomic pn mn body, allocated_mutexes)))"
| "mutate env lab p (LetStmt x v b) allocated_mutexes =
     (case mutate env lab (1 # p) b allocated_mutexes of
        Inl e \<Rightarrow> Inl e
      | Inr (b', al) \<Rightarrow> Inr (LetStmt x v b', al))"
| "mutate env lab p (Store x pr v i) allocated_mutexes =
     Inr (Store x pr v i, allocated_mutexes)"
| "mutate env lab p (Block a b) allocated_mutexes =
     (case mutate env lab (0 # p) a allocated_mutexes of
        Inl e \<Rightarrow> Inl e
      | Inr (a', al1) \<Rightarrow>
          (case mutate env lab (1 # p) b al1 of
             Inl e \<Rightarrow> Inl e
           | Inr (b', al2) \<Rightarrow> Inr (Block a' b', al2)))"
| "mutate env lab p (For x mn ex b) allocated_mutexes =
     (case mutate env lab (2 # p) b allocated_mutexes of
        Inl e \<Rightarrow> Inl e
      | Inr (b', al) \<Rightarrow> Inr (For x mn ex b', al))"
| "mutate env lab p (Evaluate e) allocated_mutexes = Inr (Evaluate e, allocated_mutexes)"

subsection \<open>The entry point\<close>

text \<open>The synthesizer is run on what the analyzer returns, under its labelling.\<close>

definition add_atomic_mutex :: "labelling \<Rightarrow> stmt \<Rightarrow> env \<Rightarrow> error + stmt" where
  "add_atomic_mutex lab s env =
     (let (s1, same, made, names) = remove_unnecessary_mutex_use lab [] s {} in
      case mutate env (relabel lab made) [] s1 {} of
        Inl e \<Rightarrow> Inl e
      | Inr (s2, al) \<Rightarrow> Inr s2)"


subsection \<open>What the synthesizer is specified to do\<close>

text \<open>
  The stores to one of \<open>names\<close> that stand inside an atomic region with a mutex name, in
  program order. Each is given by the chain of the regions with a mutex name around it,
  the outermost first, as pairs of producer name and mutex name; \<open>ctx\<close> is the chain
  around the statement.
\<close>

fun protected_stores ::
  "string set \<Rightarrow> (string \<times> string) list \<Rightarrow> stmt \<Rightarrow> (string \<times> string) list list" where
  "protected_stores names ctx (Store x p v i) =
     (if x \<in> names \<and> ctx \<noteq> [] then [ctx] else [])"
| "protected_stores names ctx (Atomic pn mn b) =
     protected_stores names (if mn \<noteq> [] then ctx @ [(pn, mn)] else ctx) b"
| "protected_stores names ctx (LetStmt x v b) = protected_stores names ctx b"
| "protected_stores names ctx (Allocate x t m es c b ne ff) = protected_stores names ctx b"
| "protected_stores names ctx (ProducerConsumer x ip b) = protected_stores names ctx b"
| "protected_stores names ctx (Block a b) =
     protected_stores names ctx a @ protected_stores names ctx b"
| "protected_stores names ctx (For x mn ex b) = protected_stores names ctx b"
| "protected_stores names ctx (Evaluate e) = []"




text \<open>The names of the producer/consumer nodes of a statement that are producers.\<close>

fun producer_names :: "stmt \<Rightarrow> string set" where
  "producer_names (ProducerConsumer x ip b) =
     (if ip then insert x (producer_names b) else producer_names b)"
| "producer_names (LetStmt x v b) = producer_names b"
| "producer_names (Store x p v i) = {}"
| "producer_names (Atomic pn mn b) = producer_names b"
| "producer_names (Allocate x t m es c b ne ff) = producer_names b"
| "producer_names (Block a b) = producer_names a \<union> producer_names b"
| "producer_names (For x mn ex b) = producer_names b"
| "producer_names (Evaluate e) = {}"

text \<open>
  The atomic regions with a mutex name that are not inside the body of another such
  region, in program order: of a statement that stands at position \<open>p\<close>, each with the
  position of its body; and of a statement whatever its position.
\<close>

fun unenclosed_regions_at ::
  "position \<Rightarrow> stmt \<Rightarrow> (position \<times> string \<times> string \<times> stmt) list" where
  "unenclosed_regions_at p (Atomic pn mn b) =
     (if mn = [] then unenclosed_regions_at (0 # p) b else [(0 # p, pn, mn, b)])"
| "unenclosed_regions_at p (LetStmt x v b) = unenclosed_regions_at (1 # p) b"
| "unenclosed_regions_at p (Store x pr v i) = []"
| "unenclosed_regions_at p (Allocate x t m es c b ne ff) = unenclosed_regions_at (1 # p) b"
| "unenclosed_regions_at p (ProducerConsumer x ip b) = unenclosed_regions_at (0 # p) b"
| "unenclosed_regions_at p (Block a b) =
     unenclosed_regions_at (0 # p) a @ unenclosed_regions_at (1 # p) b"
| "unenclosed_regions_at p (For x mn ex b) = unenclosed_regions_at (2 # p) b"
| "unenclosed_regions_at p (Evaluate e) = []"

text \<open>The producer name and the mutex name of each of these regions.\<close>

definition region_names :: "position \<Rightarrow> stmt \<Rightarrow> (string \<times> string) set" where
  "region_names p s = (\<lambda>(q, pn, mn, b). (pn, mn)) ` set (unenclosed_regions_at p s)"


fun contains_store :: "stmt \<Rightarrow> bool" where
  "contains_store (Store x p v i) = True"
| "contains_store (LetStmt x v b) = contains_store b"
| "contains_store (Atomic pn mn b) = contains_store b"
| "contains_store (Allocate x t m es c b ne ff) = contains_store b"
| "contains_store (ProducerConsumer x ip b) = contains_store b"
| "contains_store (Block a b) = (contains_store a \<or> contains_store b)"
| "contains_store (For x mn ex b) = contains_store b"
| "contains_store (Evaluate e) = False"

text \<open>
  A call of a runtime routine on an index of the mutex array \<open>mn\<close>, evaluated for its
  effect; the index that the index finder gives for a body at position \<open>p\<close>, zero when it
  gives none; and a region with its body between the lock and the unlock of that index.
\<close>

definition mutex_call :: "string \<Rightarrow> string \<Rightarrow> expr \<Rightarrow> stmt" where
  "mutex_call f mn ix =
     Evaluate (Call (Int_t 32) f [Variable Mutex_array_ptr_t mn, ix] Extern)"

definition lock_index :: "labelling \<Rightarrow> position \<Rightarrow> stmt \<Rightarrow> expr" where
  "lock_index lab p b =
     (case index (find_store_index lab p b fsi_init) of
        None \<Rightarrow> IntImm (Int_t 32) 0
      | Some i \<Rightarrow> i)"



section \<open>Example programs\<close>

definition var :: "string \<Rightarrow> expr" where
  "var x = Variable (Int_t 32) x"

definition i32_one :: expr where
  "i32_one = IntImm (Int_t 32) 1"

text \<open>An update of a buffer at \<open>x\<close> that reads the old value inside the stored value.\<close>

definition update_in_place :: "string \<Rightarrow> stmt" where
  "update_in_place buf =
     Store buf const_true (Add (Load buf const_true (var ''x'')) i32_one) (var ''x'')"

text \<open>The same update after an earlier pass has lifted the load into a let.\<close>

definition update_lifted :: "string \<Rightarrow> stmt" where
  "update_lifted buf =
     LetStmt ''t'' (Load buf const_true (var ''x''))
       (Store buf const_true (Add (var ''t'') i32_one) (var ''x''))"

text \<open>
  The lifted load used in a second let and in the stored value; and the labelling under
  which, as the body of a region at the root, the two uses of \<open>t\<close> are one shared
  variable node, every other node being a node of its own.
\<close>

definition update_through_two_lets :: stmt where
  "update_through_two_lets =
     LetStmt ''t'' (Load ''f'' const_true (var ''x''))
       (LetStmt ''u'' (Add (var ''t'') i32_one)
          (Store ''f'' const_true (Add (var ''t'') i32_one) (var ''x'')))"

definition shared_variable :: labelling where
  "shared_variable = At([0, 0, 1, 0] := Shared 0, [0, 1, 1, 1, 0] := Shared 0)"

text \<open>The lifted load bound by a let around the region.\<close>

definition update_under_outer_let :: stmt where
  "update_under_outer_let =
     LetStmt ''t'' (Load ''f'' const_true (var ''x''))
       (Atomic ''f'' ''f.mutex''
          (Store ''f'' const_true (Add (var ''t'') i32_one) (var ''x'')))"

definition nested_regions :: stmt where
  "nested_regions =
     Atomic ''f'' ''outer.mutex'' (Atomic ''g'' ''inner.mutex'' (update_lifted ''g''))"

text \<open>
  The nested regions under the allocation of \<open>g\<close>; and under the producer of an output
  function whose buffer is \<open>g\<close>.
\<close>

definition nested_allocation :: stmt where
  "nested_allocation =
     Allocate ''g'' (Int_t 32) Heap_mem [var ''w''] const_true nested_regions None []"

definition g_output :: func where
  "g_output = \<lparr>output_buffers = [\<lparr>buffer_name = ''g'', dim_extents = [var ''w'']\<rparr>]\<rparr>"

definition nested_producer :: stmt where
  "nested_producer = ProducerConsumer ''g'' True nested_regions"

definition region_body :: stmt where
  "region_body = Block (Atomic ''g'' ''g.mutex'' (update_lifted ''g'')) (update_lifted ''f'')"

text \<open>An atomic update of \<open>hist\<close> under the allocation of \<open>hist\<close>.\<close>

definition hist_allocation :: "stmt \<Rightarrow> stmt" where
  "hist_allocation body =
     Allocate ''hist'' (Int_t 32) Heap_mem [var ''w'', var ''h''] const_true
       (Atomic ''hist'' ''hist.mutex'' body) None []"

text \<open>
  An output function with a tuple of two buffers; two producers of it whose regions
  share one mutex name; and what the synthesizer makes of the two.
\<close>

definition tuple_output :: func where
  "tuple_output =
     \<lparr>output_buffers = [\<lparr>buffer_name = ''f.0'', dim_extents = [var ''w'']\<rparr>,
                        \<lparr>buffer_name = ''f.1'', dim_extents = [var ''h'']\<rparr>]\<rparr>"

definition two_producers :: stmt where
  "two_producers =
     Block (ProducerConsumer ''f'' True (Atomic ''f'' ''f.mutex'' (update_lifted ''f.0'')))
           (ProducerConsumer ''f'' True (Atomic ''f'' ''f.mutex'' (update_lifted ''f.1'')))"

definition two_producers_out :: stmt where
  "two_producers_out =
     Block
       (ProducerConsumer ''f'' True
          (Allocate ''f.mutex'' Handle_t Stack_mem [] const_true
             (Atomic ''f'' ''f.mutex''
                (Block (mutex_call ''halide_mutex_array_lock'' ''f.mutex'' (var ''x''))
                   (Block (update_lifted ''f.0'')
                      (mutex_call ''halide_mutex_array_unlock'' ''f.mutex'' (var ''x'')))))
             (Some (Call Mutex_array_ptr_t ''halide_mutex_array_create''
                      [Mul (IntImm (Int_t 32) 1) (var ''w'')] Extern))
             ''halide_mutex_array_destroy''))
       (ProducerConsumer ''f'' True
          (Atomic ''f'' ''f.mutex''
             (Block (mutex_call ''halide_mutex_array_lock'' ''f.mutex'' (var ''x''))
                (Block (update_lifted ''f.1'')
                   (mutex_call ''halide_mutex_array_unlock'' ''f.mutex'' (var ''x''))))))"

definition scalar_region_body :: stmt where
  "scalar_region_body = Evaluate (Call (Int_t 32) ''accumulate'' [var ''x''] Extern)"

definition no_outputs :: func where
  "no_outputs = \<lparr>output_buffers = []\<rparr>"

definition idle_producer :: stmt where
  "idle_producer = ProducerConsumer ''f'' True (Evaluate i32_one)"

definition one_output :: func where
  "one_output =
     \<lparr>output_buffers = [\<lparr>buffer_name = ''f'', dim_extents = [var ''w'', var ''h'']\<rparr>]\<rparr>"

definition output_producer :: stmt where
  "output_producer =
     ProducerConsumer ''f'' True (Atomic ''f'' ''f.mutex'' (update_lifted ''f''))"

section \<open>The downgrade analyzer: proofs\<close>

text \<open>
  When the mutator says that it returns the object it was given, the statement is the
  one it was given; so the statement it returns is always the plain rebuild.
\<close>

lemma remove_same:
  "fst (snd (remove_unnecessary_mutex_use lab p s names)) \<Longrightarrow>
   fst (remove_unnecessary_mutex_use lab p s names) = s"
  by (induction s arbitrary: p names) (auto simp: split_beta Let_def split: if_splits)

lemma remove_fst:
  "fst (remove_unnecessary_mutex_use lab p (Atomic pn mn b) names) =
     (if atomic_finder_found lab (0 # p) b
      then Atomic pn mn (fst (remove_unnecessary_mutex_use lab (0 # p) b names))
      else Atomic pn [] (fst (remove_unnecessary_mutex_use lab (0 # p) b (insert mn names))))"
  "fst (remove_unnecessary_mutex_use lab p (LetStmt x v b) names) =
     LetStmt x v (fst (remove_unnecessary_mutex_use lab (1 # p) b names))"
  "fst (remove_unnecessary_mutex_use lab p (Allocate x t m es c b ne ff) names) =
     Allocate x t m es c (fst (remove_unnecessary_mutex_use lab (1 # p) b names)) ne ff"
  "fst (remove_unnecessary_mutex_use lab p (ProducerConsumer x ip b) names) =
     ProducerConsumer x ip (fst (remove_unnecessary_mutex_use lab (0 # p) b names))"
  "fst (remove_unnecessary_mutex_use lab p (Block a b') names) =
     Block (fst (remove_unnecessary_mutex_use lab (0 # p) a names))
       (fst (remove_unnecessary_mutex_use lab (1 # p) b'
               (snd (snd (snd (remove_unnecessary_mutex_use lab (0 # p) a names))))))"
  "fst (remove_unnecessary_mutex_use lab p (For x lo ex b) names) =
     For x lo ex (fst (remove_unnecessary_mutex_use lab (2 # p) b names))"
  by (simp_all add: split_beta Let_def remove_same)

lemma remove_clear_mutex_names:
  "clear_mutex_names (fst (remove_unnecessary_mutex_use lab p s names)) = clear_mutex_names s"
proof (induction s arbitrary: p names)
  case (Store x pr v i)
  show ?case by simp
next
  case (Evaluate e)
  show ?case by simp
qed (simp_all del: remove_unnecessary_mutex_use.simps add: remove_fst)

lemma remove_atomic_regions:
  "list_all2 (\<lambda>(pn, mn, b) (pn', mn', b'). pn' = pn \<and> (mn' = mn \<or> mn' = []))
     (atomic_regions s) (atomic_regions (fst (remove_unnecessary_mutex_use lab p s names)))"
proof (induction s arbitrary: p names)
  case (Store x pr v i)
  show ?case by simp
next
  case (Evaluate e)
  show ?case by simp
qed (simp_all del: remove_unnecessary_mutex_use.simps add: remove_fst list_all2_appendI)

lemma remove_producer_names:
  "producer_names (fst (remove_unnecessary_mutex_use lab p s names)) = producer_names s"
proof (induction s arbitrary: p names)
  case (Store x pr v i)
  show ?case by simp
next
  case (Evaluate e)
  show ?case by simp
qed (simp_all del: remove_unnecessary_mutex_use.simps add: remove_fst)

lemmas run_defs = atomic_finder_found_def csn_init_def falb_init_def fsam_init_def
  fsi_init_def include_expr_def include_exprs_def relabel_def allocate_mutex_def
  expr_uses_vars_def add_atomic_mutex_def store_value_depends_def mutex_call_def
  var_def i32_one_def const_true_def Let_def

text \<open>
  C1: the claim has the analyzer keep the mutex name of a region when a store of its body
  stores a value with a variable reference that depends, through the let-bindings, on a
  buffer the body writes. In \<open>update_lifted []\<close> the stored value refers to \<open>t\<close>, which
  the let around the store binds to a load from the buffer the store writes, so the
  dependency is there. The finder keeps the name of the store it is inside in
  \<open>inside_store\<close> and takes the empty name for being outside a store; the buffer here has
  the empty name, the reference is not tested, and the analyzer clears the mutex name.
\<close>

theorem unnamed_buffer_dependency_cleared:
  "store_value_depends [] (update_lifted []) \<and>
   fst (remove_unnecessary_mutex_use At [] (Atomic ''f'' ''f.mutex'' (update_lifted [])) {}) =
     Atomic ''f'' [] (update_lifted [])"
  by (simp add: update_lifted_def run_defs)

text \<open>
  Two more ways in which the analyzer clears the mutex name of a region although the
  dependency is there. The finder goes into a node object once: a variable node that it
  has been to outside a stored value is not tested when the stored value shares it. And
  every region gets a new finder with no bindings: a let around the region is not seen.
  With every node a node of its own, the first of the two regions keeps its name.
\<close>

lemma shared_variable_dependency_cleared:
  "store_value_depends [] update_through_two_lets \<and>
   fst (remove_unnecessary_mutex_use At []
          (Atomic ''f'' ''f.mutex'' update_through_two_lets) {}) =
     Atomic ''f'' ''f.mutex'' update_through_two_lets \<and>
   fst (remove_unnecessary_mutex_use shared_variable []
          (Atomic ''f'' ''f.mutex'' update_through_two_lets) {}) =
     Atomic ''f'' [] update_through_two_lets"
  by (simp add: update_through_two_lets_def shared_variable_def run_defs)

lemma outer_let_dependency_cleared:
  "store_value_depends [(''t'', Load ''f'' const_true (var ''x''))]
     (Store ''f'' const_true (Add (var ''t'') i32_one) (var ''x'')) \<and>
   fst (remove_unnecessary_mutex_use At [] update_under_outer_let {}) =
     LetStmt ''t'' (Load ''f'' const_true (var ''x''))
       (Atomic ''f'' []
          (Store ''f'' const_true (Add (var ''t'') i32_one) (var ''x'')))"
  by (simp add: update_under_outer_let_def run_defs)

text \<open>
  C7: the atomic regions of the analyzer's output are those of its input, one for one and
  in the same order, each with its producer name and with a mutex name that is the one it
  had or the empty one; and the output differs from the input in mutex names only.
\<close>

theorem analyzer_keeps_or_clears_names:
  "list_all2 (\<lambda>(pn, mn, b) (pn', mn', b'). pn' = pn \<and> (mn' = mn \<or> mn' = []))
     (atomic_regions s)
     (atomic_regions (fst (remove_unnecessary_mutex_use lab p s names))) \<and>
   clear_mutex_names (fst (remove_unnecessary_mutex_use lab p s names)) =
     clear_mutex_names s"
  by (rule conjI [OF remove_atomic_regions remove_clear_mutex_names])


section \<open>The mutex synthesizer: proofs\<close>

lemma mutate_no_invalid_iterator:
  "producer_names s \<subseteq> dom env \<Longrightarrow> mutate env lab p s A \<noteq> Inl Invalid_iterator"
  by (induction s arbitrary: p A)
     (auto simp: Let_def split: sum.splits if_splits option.splits list.splits)







lemma include_expr_index: "index (include_expr lab p e st) = index st"
  by (simp add: include_expr_def)

lemma include_exprs_index: "index (include_exprs lab p k es st) = index st"
  by (simp add: include_exprs_def)

lemma find_store_index_no_store:
  "\<not> contains_store b \<Longrightarrow> index (find_store_index lab p b st) = index st"
  "\<not> contains_store b \<Longrightarrow> index (find_store_index_include lab p b st) = index st"
proof (induction lab p b st and lab p b st rule: find_store_index_find_store_index_include.induct)
  case (4 lab p x t m es c b ne ff st)
  then show ?case
    by (simp add: Let_def include_expr_index include_exprs_index split: option.splits)
qed (simp_all add: include_expr_index include_exprs_index)

text \<open>
  The finder: a visit puts the flag \<open>in_atomic_mutex\<close> back as it was; once a store has
  been found, the names recorded are not changed by a visit; and when a visit that begins
  outside every region with a mutex name finds a store, the names recorded are those of
  a region that is not inside another region with a mutex name.
\<close>

lemma fsam_include_expr:
  "found (include_expr lab p e st) = found st"
  "producer_name (include_expr lab p e st) = producer_name st"
  "mutex_name (include_expr lab p e st) = mutex_name st"
  "in_atomic_mutex (include_expr lab p e st) = in_atomic_mutex st"
  "found (include_exprs lab p k es st) = found st"
  "producer_name (include_exprs lab p k es st) = producer_name st"
  "mutex_name (include_exprs lab p k es st) = mutex_name st"
  "in_atomic_mutex (include_exprs lab p k es st) = in_atomic_mutex st"
  by (simp_all add: include_expr_def include_exprs_def)

lemma fsam_in_atomic_mutex:
  "in_atomic_mutex (find_store_in_atomic_mutex sn lab p s st) = in_atomic_mutex st"
  "in_atomic_mutex (find_store_in_atomic_mutex_include sn lab p s st) = in_atomic_mutex st"
proof (induction sn lab p s st and sn lab p s st
    rule: find_store_in_atomic_mutex_find_store_in_atomic_mutex_include.induct)
  case (1 sn lab p pn mn b st)
  then show ?case by (simp add: Let_def)
next
  case (2 sn lab p x pr v i st)
  then show ?case by (simp add: Let_def fsam_include_expr split: option.splits)
next
  case (4 sn lab p x t m es c b ne ff st)
  then show ?case by (simp add: Let_def fsam_include_expr split: option.splits)
qed (simp_all add: fsam_include_expr)

lemma fsam_found_kept:
  "found st \<Longrightarrow>
   found (find_store_in_atomic_mutex sn lab p s st) \<and>
   producer_name (find_store_in_atomic_mutex sn lab p s st) = producer_name st \<and>
   mutex_name (find_store_in_atomic_mutex sn lab p s st) = mutex_name st"
  "found st \<Longrightarrow>
   found (find_store_in_atomic_mutex_include sn lab p s st) \<and>
   producer_name (find_store_in_atomic_mutex_include sn lab p s st) = producer_name st \<and>
   mutex_name (find_store_in_atomic_mutex_include sn lab p s st) = mutex_name st"
proof (induction sn lab p s st and sn lab p s st
    rule: find_store_in_atomic_mutex_find_store_in_atomic_mutex_include.induct)
  case (2 sn lab p x pr v i st)
  then show ?case by (simp add: Let_def fsam_include_expr split: option.splits)
next
  case (4 sn lab p x t m es c b ne ff st)
  then show ?case by (simp add: Let_def fsam_include_expr split: option.splits)
qed (simp_all add: fsam_include_expr)

lemma fsam_region_names:
  "\<not> found st \<Longrightarrow> \<not> in_atomic_mutex st \<Longrightarrow>
   found (find_store_in_atomic_mutex sn lab p s st) \<Longrightarrow>
   (producer_name (find_store_in_atomic_mutex sn lab p s st),
    mutex_name (find_store_in_atomic_mutex sn lab p s st)) \<in> region_names p s"
  "\<not> found st \<Longrightarrow> \<not> in_atomic_mutex st \<Longrightarrow>
   found (find_store_in_atomic_mutex_include sn lab p s st) \<Longrightarrow>
   (producer_name (find_store_in_atomic_mutex_include sn lab p s st),
    mutex_name (find_store_in_atomic_mutex_include sn lab p s st)) \<in> region_names p s"
proof (induction sn lab p s st and sn lab p s st
    rule: find_store_in_atomic_mutex_find_store_in_atomic_mutex_include.induct)
  case (1 sn lab p pn mn b st)
  then show ?case by (auto simp: Let_def region_names_def split: if_splits)
next
  case (2 sn lab p x pr v i st)
  then show ?case by (simp add: Let_def fsam_include_expr split: option.splits)
next
  case (3 sn lab p x v b st)
  then show ?case by (simp add: fsam_include_expr region_names_def)
next
  case (4 sn lab p x t m es c b ne ff st)
  then show ?case
    by (simp add: Let_def fsam_include_expr region_names_def split: option.splits)
next
  case (5 sn lab p x ip b st)
  then show ?case by (simp add: region_names_def)
next
  case (6 sn lab p a b st)
  let ?st1 = "find_store_in_atomic_mutex_include sn lab (0 # p) a st"
  let ?st2 = "find_store_in_atomic_mutex_include sn lab (1 # p) b ?st1"
  have e: "find_store_in_atomic_mutex sn lab p (Block a b) st = ?st2"
    by (rule find_store_in_atomic_mutex.simps)
  have u: "region_names (0 # p) a \<union> region_names (1 # p) b = region_names p (Block a b)"
    by (simp add: region_names_def image_Un)
  have f2: "found ?st2" using 6(5) by (simp only: e)
  have "(producer_name ?st2, mutex_name ?st2) \<in>
      region_names (0 # p) a \<union> region_names (1 # p) b"
  proof (cases "found ?st1")
    case True
    have r: "(producer_name ?st1, mutex_name ?st1) \<in> region_names (0 # p) a"
      by (rule 6(1)[OF 6(3) 6(4) True])
    have k: "producer_name ?st2 = producer_name ?st1 \<and> mutex_name ?st2 = mutex_name ?st1"
      using fsam_found_kept(2)[OF True, of sn lab "1 # p" b] by (rule conjunct2)
    show ?thesis using r k by (simp only: Un_iff) simp
  next
    case False
    have na: "\<not> in_atomic_mutex ?st1"
      using 6(4) by (simp add: fsam_in_atomic_mutex del: find_store_in_atomic_mutex.simps)
    have "(producer_name ?st2, mutex_name ?st2) \<in> region_names (1 # p) b"
      by (rule 6(2)[OF False na f2])
    then show ?thesis by (simp only: Un_iff) simp
  qed
  then show ?case by (simp only: e u)
next
  case (7 sn lab p x mn ex b st)
  then show ?case by (simp add: fsam_include_expr region_names_def)
next
  case (8 sn lab p e st)
  then show ?case by (simp add: fsam_include_expr)
next
  case (9 sn lab p s st)
  then show ?case by (auto split: if_splits)
qed

subsection \<open>The examples, run\<close>


text \<open>
  The scenarios of the specification, through the entry point. An update in place needs
  no mutex, and the pass returns the allocation with the mutex name of its region
  cleared. A tuple of two output buffers gets one mutex array, at the first producer and
  of the size of the first buffer.
\<close>

lemma scenario_in_place:
  "add_atomic_mutex At (hist_allocation (update_in_place ''hist'')) Map.empty =
     Inr (Allocate ''hist'' (Int_t 32) Heap_mem [var ''w'', var ''h''] const_true
            (Atomic ''hist'' [] (update_in_place ''hist'')) None [])"
  by (simp add: hist_allocation_def update_in_place_def run_defs)

lemma scenario_tuple_output:
  "add_atomic_mutex At two_producers [''f'' \<mapsto> tuple_output] = Inr two_producers_out"
  by (simp add: two_producers_def two_producers_out_def tuple_output_def update_lifted_def
        run_defs)


section \<open>The claims about the synthesizer\<close>




text \<open>
  C3, as the claim states it, fails: the body of a region with a mutex name is not
  processed. Processing \<open>region_body\<close> on its own locks the region of \<open>g\<close> in it; the
  region of \<open>f\<close> around it comes back with the lock and the unlock around \<open>region_body\<close>
  as it was, the region of \<open>g\<close> unlocked.
\<close>

theorem region_body_not_processed:
  "mutate Map.empty At [] region_body {} =
     Inr (Block (Atomic ''g'' ''g.mutex''
                   (Block (mutex_call ''halide_mutex_array_lock'' ''g.mutex'' (var ''x''))
                      (Block (update_lifted ''g'')
                         (mutex_call ''halide_mutex_array_unlock'' ''g.mutex'' (var ''x'')))))
                (update_lifted ''f''), {}) \<and>
   mutate Map.empty At [] (Atomic ''f'' ''f.mutex'' region_body) {} =
     Inr (Atomic ''f'' ''f.mutex''
            (Block (mutex_call ''halide_mutex_array_lock'' ''f.mutex'' (var ''x''))
               (Block (Block (Atomic ''g'' ''g.mutex'' (update_lifted ''g''))
                         (update_lifted ''f''))
                  (mutex_call ''halide_mutex_array_unlock'' ''f.mutex'' (var ''x'')))), {})"
  by (simp add: region_body_def update_lifted_def run_defs)

text \<open>
  C3, amended: when the synthesizer rewrites an atomic region with a mutex name, the lock
  and the unlock are put around the region's body as it stands in the input; the body is
  not processed, and the set of allocated mutexes stays as it is.
\<close>

theorem atomic_wraps_original_body:
  "mn \<noteq> [] \<Longrightarrow>
   mutate env lab p (Atomic pn mn b) A =
     Inr (Atomic pn mn
            (Block (mutex_call ''halide_mutex_array_lock'' mn (lock_index lab (0 # p) b))
               (Block b
                  (mutex_call ''halide_mutex_array_unlock'' mn (lock_index lab (0 # p) b)))),
          A)"
  by (simp add: Let_def mutex_call_def lock_index_def)

text \<open>C3, an instance: the region of \<open>f\<close> around \<open>region_body\<close>.\<close>

theorem atomic_wraps_original_body_witness:
  "''f.mutex'' \<noteq> [] \<and>
   mutate Map.empty At [] (Atomic ''f'' ''f.mutex'' region_body) {} =
     Inr (Atomic ''f'' ''f.mutex''
            (Block (mutex_call ''halide_mutex_array_lock'' ''f.mutex'' (var ''x''))
               (Block region_body
                  (mutex_call ''halide_mutex_array_unlock'' ''f.mutex'' (var ''x'')))), {})"
proof -
  have n: "''f.mutex'' \<noteq> []" by simp
  have i: "lock_index At [0] region_body = var ''x''"
    by (simp add: region_body_def lock_index_def update_lifted_def run_defs)
  show ?thesis
    using n atomic_wraps_original_body [OF n, where env = Map.empty and lab = At
        and p = "[]" and pn = "''f''" and b = region_body and A = "{}"]
    by (simp add: i)
qed

text \<open>
  C4: the claim has the synthesizer emit one mutex-array creation, sized by the extents,
  and one destruction for an allocation whose body holds a store to its buffer inside an
  atomic region with a mutex name. In \<open>hist_allocation (update_lifted ''hist'')\<close> the
  region under the allocation of \<open>hist\<close> keeps its mutex name and holds a store to
  \<open>hist\<close>. At the allocation the finder is handed a set that is destroyed before the body
  is visited, and asks that set for the name of the store: the run has no defined result
  from there on, and the pass does not return the statement with the mutex array.
\<close>

theorem allocation_reads_destroyed_store_names:
  "protected_stores {''hist''} [] (Atomic ''hist'' ''hist.mutex'' (update_lifted ''hist'')) =
     [[(''hist'', ''hist.mutex'')]] \<and>
   fst (remove_unnecessary_mutex_use At [] (hist_allocation (update_lifted ''hist'')) {}) =
     hist_allocation (update_lifted ''hist'') \<and>
   mutate Map.empty At [] (hist_allocation (update_lifted ''hist'')) {} =
     Inl Destroyed_store_names \<and>
   add_atomic_mutex At (hist_allocation (update_lifted ''hist'')) Map.empty =
     Inl Destroyed_store_names"
  by (simp add: hist_allocation_def update_lifted_def run_defs)



text \<open>
  C6: the claim lets a producer whose function has no output buffers pass when it holds
  no atomic region that needs a lock, and the message of the assertion says the same. The
  code makes the assertion before it searches the body: \<open>idle_producer\<close> has no atomic
  region at all, and the pass fails on it.
\<close>

theorem producer_without_outputs_aborts:
  "atomic_regions idle_producer = [] \<and>
   add_atomic_mutex At idle_producer [''f'' \<mapsto> no_outputs] =
     Inl (Internal_assert
       (''Found a producer node that contains an atomic node that requires mutex lock, '' @
        ''but does not have an Allocate node and is not an output function. '' @
        ''This is not supported.''))"
  by (simp add: idle_producer_def no_outputs_def run_defs)

text \<open>
  C8: for an atomic region with a mutex name whose body has no store, the synthesizer
  locks and unlocks the constant index \<open>0\<close>.
\<close>

theorem scalar_region_locks_index_zero:
  assumes "mn \<noteq> []" and "\<not> contains_store b"
  shows "mutate env lab p (Atomic pn mn b) A =
     Inr (Atomic pn mn
            (Block (mutex_call ''halide_mutex_array_lock'' mn (IntImm (Int_t 32) 0))
               (Block b (mutex_call ''halide_mutex_array_unlock'' mn (IntImm (Int_t 32) 0)))),
          A)"
  using assms by (simp add: Let_def mutex_call_def find_store_index_no_store fsi_init_def)

text \<open>C8, an instance: a region whose body is a call, with no store.\<close>

theorem scalar_region_locks_index_zero_witness:
  "''f.mutex'' \<noteq> [] \<and> \<not> contains_store scalar_region_body \<and>
   mutate Map.empty At [] (Atomic ''f'' ''f.mutex'' scalar_region_body) {} =
     Inr (Atomic ''f'' ''f.mutex''
            (Block (mutex_call ''halide_mutex_array_lock'' ''f.mutex'' (IntImm (Int_t 32) 0))
               (Block scalar_region_body
                  (mutex_call ''halide_mutex_array_unlock'' ''f.mutex''
                     (IntImm (Int_t 32) 0)))), {})"
proof -
  have n: "''f.mutex'' \<noteq> []" by simp
  have c: "\<not> contains_store scalar_region_body" by (simp add: scalar_region_body_def)
  show ?thesis
    using n c scalar_region_locks_index_zero [OF n c, where env = Map.empty and lab = At
        and p = "[]" and pn = "''f''" and A = "{}"]
    by simp
qed

text \<open>
  C9: when every producer name of the statement is a key of the environment, the pass
  never uses the iterator of a failed lookup; and a producer that the pass visits with a
  name the environment does not have makes it do so.
\<close>

theorem producer_lookup_precondition:
  "(producer_names s \<subseteq> dom env \<longrightarrow> add_atomic_mutex lab s env \<noteq> Inl Invalid_iterator) \<and>
   (env x = None \<longrightarrow>
      add_atomic_mutex lab (ProducerConsumer x True b) env = Inl Invalid_iterator)"
proof (intro conjI impI)
  assume "producer_names s \<subseteq> dom env"
  then have "mutate env lab' [] (fst (remove_unnecessary_mutex_use lab [] s {})) {} \<noteq>
      Inl Invalid_iterator" for lab'
    by (simp add: mutate_no_invalid_iterator remove_producer_names)
  then show "add_atomic_mutex lab s env \<noteq> Inl Invalid_iterator"
    by (auto simp: add_atomic_mutex_def split_beta split: sum.splits)
next
  assume "env x = None"
  then show "add_atomic_mutex lab (ProducerConsumer x True b) env = Inl Invalid_iterator"
    by (simp add: add_atomic_mutex_def split_beta remove_fst
          del: remove_unnecessary_mutex_use.simps)
qed

text \<open>
  C9, an instance: the producer of an output function that the environment has, and a
  producer under the empty environment.
\<close>

theorem producer_lookup_precondition_witness:
  "producer_names output_producer \<subseteq> dom [''f'' \<mapsto> one_output] \<and>
   add_atomic_mutex At output_producer [''f'' \<mapsto> one_output] \<noteq> Inl Invalid_iterator \<and>
   Map.empty ''f'' = (None :: func option) \<and>
   add_atomic_mutex At (ProducerConsumer ''f'' True (Evaluate i32_one)) Map.empty =
     Inl Invalid_iterator"
proof -
  have p: "producer_names output_producer \<subseteq> dom [''f'' \<mapsto> one_output]"
    by (simp add: output_producer_def update_lifted_def)
  have e: "(Map.empty :: env) ''f'' = None" by simp
  show ?thesis
    using p e
      producer_lookup_precondition [where s = output_producer and lab = At
        and env = "[''f'' \<mapsto> one_output]" and x = "''f''" and b = "Evaluate i32_one"]
      producer_lookup_precondition [where s = output_producer and lab = At
        and env = "Map.empty" and x = "''f''" and b = "Evaluate i32_one"]
    by simp
qed

text \<open>
  C10: the claim has the mutex array of an allocation allocated under the names that the
  finder reports, those of the outermost region with a mutex name around the first store
  to the allocated buffer. In \<open>nested_allocation\<close> the store to \<open>g\<close> stands inside the
  region of \<open>inner.mutex\<close> inside the region of \<open>outer.mutex\<close>. At the allocation of
  \<open>g\<close> the finder asks a destroyed set for the name of the store, as it does at every
  allocation: it has no defined report, and no mutex array is allocated under
  \<open>outer.mutex\<close>.
\<close>

theorem allocation_has_no_outermost_report:
  "protected_stores {''g''} [] nested_regions =
     [[(''f'', ''outer.mutex''), (''g'', ''inner.mutex'')]] \<and>
   read_destroyed (find_store_in_atomic_mutex None At [1] nested_regions fsam_init) \<and>
   mutate Map.empty At [] nested_allocation {} = Inl Destroyed_store_names"
  by (simp add: nested_allocation_def nested_regions_def update_lifted_def run_defs)

text \<open>
  At a producer the set of the finder is alive. The finder reports the names of the
  outer region for the store to \<open>g\<close>, and the mutex array is allocated under them.
\<close>

lemma producer_allocates_under_outermost_region:
  "producer_name (find_store_in_atomic_mutex (Some {''g''}) At [0] nested_regions fsam_init) =
     ''f'' \<and>
   mutex_name (find_store_in_atomic_mutex (Some {''g''}) At [0] nested_regions fsam_init) =
     ''outer.mutex'' \<and>
   mutate [''g'' \<mapsto> g_output] At [] nested_producer {} =
     Inr (ProducerConsumer ''g'' True
            (Allocate ''outer.mutex'' Handle_t Stack_mem [] const_true
               (Atomic ''f'' ''outer.mutex''
                  (Block (mutex_call ''halide_mutex_array_lock'' ''outer.mutex'' (var ''x''))
                     (Block (Atomic ''g'' ''inner.mutex'' (update_lifted ''g''))
                        (mutex_call ''halide_mutex_array_unlock'' ''outer.mutex''
                           (var ''x'')))))
               (Some (Call Mutex_array_ptr_t ''halide_mutex_array_create''
                        [Mul (IntImm (Int_t 32) 1) (var ''w'')] Extern))
               ''halide_mutex_array_destroy''),
          {''outer.mutex''})"
  by (simp add: nested_producer_def nested_regions_def g_output_def update_lifted_def run_defs)

text \<open>
  For every statement and every sharing of nodes: when a finder with a live set finds a
  store, the names it reports are those of an atomic region with a mutex name that is
  not inside another such region, the outermost one; and a producer whose finder finds a
  store, under a mutex name that is not allocated yet, wraps its processed body in the
  allocation of a mutex array of that name, sized by the extents of the first output
  buffer.
\<close>

lemma finder_reports_unenclosed_region:
  "found (find_store_in_atomic_mutex (Some ns) lab p s fsam_init) \<Longrightarrow>
   (producer_name (find_store_in_atomic_mutex (Some ns) lab p s fsam_init),
    mutex_name (find_store_in_atomic_mutex (Some ns) lab p s fsam_init)) \<in> region_names p s"
  by (rule fsam_region_names(1)) (simp_all add: fsam_init_def)

lemma producer_allocates_under_reported_name:
  assumes "env x = Some f" and "output_buffers f = ob # obs"
    and "finder = find_store_in_atomic_mutex (Some (set (map buffer_name (output_buffers f))))
                    lab (0 # p) b fsam_init"
    and "found finder" and "mutex_name finder \<notin> A"
    and "mutate env lab (0 # p) b (insert (mutex_name finder) A) = Inr (b', A')"
  shows "mutate env lab p (ProducerConsumer x True b) A =
     Inr (ProducerConsumer x True
            (Allocate (mutex_name finder) Handle_t Stack_mem [] const_true b'
               (Some (Call Mutex_array_ptr_t ''halide_mutex_array_create''
                        [foldl Mul (IntImm (Int_t 32) 1) (dim_extents ob)] Extern))
               ''halide_mutex_array_destroy''),
          A')"
  using assms by (simp add: Let_def allocate_mutex_def)

end
